theory Spec2Isabelle
  imports Main "HOL-Library.Word"
begin

unbundle bit_operations_syntax

section \<open>Python values and the built-ins the wrapper relies on\<close>

text \<open>
  The module under study is \<^verbatim>\<open>rust/src/python/libnmstate/clib_wrapper.py\<close>, the ctypes
  wrapper around \<^verbatim>\<open>libnmstate.so.2\<close>. A Python \<^verbatim>\<open>bytes\<close> object is a list of 8-bit
  characters, a Python \<^verbatim>\<open>str\<close> is a list of Unicode code points.
\<close>

type_synonym bytes = string
type_synonym str = "nat list"

definition ascii :: "string \<Rightarrow> str" where
  "ascii s = map of_char s"

datatype pyval =
    PNone
  | PBool bool
  | PInt int
  | PFloat "64 word"
  | PStr str
  | PBytes bytes
  | PList "pyval list"
  | PDict "(str \<times> pyval) list"

text \<open>
  The error classes imported from \<^verbatim>\<open>.error\<close>; each carries the message it was built
  with.
\<close>

datatype nmstate_error =
    NmstateError str
  | NmstateVerificationError str
  | NmstateValueError str
  | NmstateInternalError str
  | NmstatePluginError str
  | NmstateNotImplementedError str
  | NmstateKernelIntegerRoundedError str
  | NmstateNotSupportedError str
  | NmstateDependencyError str
  | NmstatePermissionError str

datatype py_exc =
    AttributeError
  | UnicodeDecodeError
  | TypeError
  | KeyError str
  | ArgumentError
  | OtherError str
  | Nmstate nmstate_error

subsection \<open>\<^verbatim>\<open>bytes.decode("utf-8")\<close>\<close>

definition cont :: "nat \<Rightarrow> bool" where
  "cont b = (128 \<le> b \<and> b < 192)"

text \<open>
  Strict UTF-8: shortest form only, no surrogates, nothing above U+10FFFF. \<open>None\<close> stands
  for \<^verbatim>\<open>UnicodeDecodeError\<close>.
\<close>

fun utf8_dec :: "nat list \<Rightarrow> str option" where
  "utf8_dec [] = Some []"
| "utf8_dec (b0 # bs) =
    (if b0 < 128 then map_option ((#) b0) (utf8_dec bs)
     else if 194 \<le> b0 \<and> b0 < 224 then
       (case bs of
          b1 # r \<Rightarrow>
            if cont b1 then map_option ((#) ((b0 - 192) * 64 + (b1 - 128))) (utf8_dec r)
            else None
        | _ \<Rightarrow> None)
     else if 224 \<le> b0 \<and> b0 < 240 then
       (case bs of
          b1 # b2 # r \<Rightarrow>
            (let cp = (b0 - 224) * 4096 + (b1 - 128) * 64 + (b2 - 128) in
             if cont b1 \<and> cont b2 \<and> 2048 \<le> cp \<and> \<not> (55296 \<le> cp \<and> cp < 57344)
             then map_option ((#) cp) (utf8_dec r) else None)
        | _ \<Rightarrow> None)
     else if 240 \<le> b0 \<and> b0 < 245 then
       (case bs of
          b1 # b2 # b3 # r \<Rightarrow>
            (let cp = (b0 - 240) * 262144 + (b1 - 128) * 4096 + (b2 - 128) * 64 + (b3 - 128) in
             if cont b1 \<and> cont b2 \<and> cont b3 \<and> 65536 \<le> cp \<and> cp < 1114112
             then map_option ((#) cp) (utf8_dec r) else None)
        | _ \<Rightarrow> None)
     else None)"

definition utf8_decode :: "bytes \<Rightarrow> str option" where
  "utf8_decode b = utf8_dec (map of_char b)"

text \<open>
  \<^verbatim>\<open>x.decode("utf-8")\<close> where \<^verbatim>\<open>x\<close> is the \<^verbatim>\<open>.value\<close> of a \<^verbatim>\<open>c_char_p\<close>: \<^verbatim>\<open>None\<close> for
  a NULL pointer (no attribute \<^verbatim>\<open>decode\<close>), otherwise the bytes up to the terminator.
\<close>

definition decode :: "bytes option \<Rightarrow> py_exc + str" where
  "decode x =
     (case x of
        None \<Rightarrow> Inl AttributeError
      | Some b \<Rightarrow> (case utf8_decode b of None \<Rightarrow> Inl UnicodeDecodeError | Some s \<Rightarrow> Inr s))"

subsection \<open>Formatting a \<^verbatim>\<open>c_char_p\<close> value inside an f-string\<close>

definition hexdigit :: "nat \<Rightarrow> nat" where
  "hexdigit d = (if d < 10 then 48 + d else 87 + d)"

definition repr_byte :: "nat \<Rightarrow> nat \<Rightarrow> str" where
  "repr_byte quote c =
     (if c = quote \<or> c = 92 then [92, c]
      else if c = 9 then [92, 116]
      else if c = 10 then [92, 110]
      else if c = 13 then [92, 114]
      else if c < 32 \<or> 127 \<le> c then [92, 120, hexdigit (c div 16), hexdigit (c mod 16)]
      else [c])"

text \<open>\<^verbatim>\<open>repr(b)\<close> of a bytes object, which is also its \<^verbatim>\<open>str()\<close> and \<^verbatim>\<open>format()\<close>.\<close>

definition bytes_repr :: "bytes \<Rightarrow> str" where
  "bytes_repr b =
     (let cs = map of_char b;
          quote = (if 39 \<in> set cs \<and> 34 \<notin> set cs then 34 else 39)
      in [98, quote] @ concat (map (repr_byte quote) cs) @ [quote])"

definition fstr :: "bytes option \<Rightarrow> str" where
  "fstr x = (case x of None \<Rightarrow> ascii ''None'' | Some b \<Rightarrow> bytes_repr b)"

subsection \<open>Library functions taken as parameters\<close>

text \<open>
  \<^verbatim>\<open>json.dumps(x).encode("utf-8")\<close> and \<^verbatim>\<open>yaml.dump(x).encode("utf-8")\<close> (the
  exception when the value cannot be serialised, \<^verbatim>\<open>TypeError\<close> for \<^verbatim>\<open>json.dumps\<close> on a
  bytes object), \<^verbatim>\<open>json.loads\<close> (\<open>None\<close> when it raises) and the \<^verbatim>\<open>str()\<close> an f-string
  applies to a value are library code; the wrapper is modelled for any behaviour of them.
\<close>

record py =
  json_dumps :: "pyval \<Rightarrow> py_exc + bytes"
  yaml_dump :: "pyval \<Rightarrow> py_exc + bytes"
  json_loads :: "str \<Rightarrow> pyval option"
  py_str :: "pyval \<Rightarrow> str"

subsection \<open>Integers crossing into C\<close>

text \<open>
  A Python int passed to a foreign function that has no \<^verbatim>\<open>argtypes\<close> (as
  \<^verbatim>\<open>nmstate_net_state_apply\<close>): ctypes accepts what fits an unsigned long or a long, 64 bits
  on the platforms of \<^verbatim>\<open>libnmstate.so.2\<close>, and hands the low 32 bits on as a C int;
  anything else is \<^verbatim>\<open>ctypes.ArgumentError\<close>, raised before the function is entered.
\<close>

definition c_int :: "int \<Rightarrow> py_exc + int" where
  "c_int n = (if - (2 ^ 63) \<le> n \<and> n < 2 ^ 64 then Inr (n mod 2 ^ 32) else Inl ArgumentError)"

text \<open>
  A Python int passed where \<^verbatim>\<open>argtypes\<close> says \<^verbatim>\<open>c_uint32\<close> (the flags of
  \<^verbatim>\<open>nmstate_net_state_retrieve\<close>): the low 32 bits, with no range check.
\<close>

definition c_uint32 :: "int \<Rightarrow> int" where
  "c_uint32 n = n mod 2 ^ 32"

section \<open>The engine boundary\<close>

datatype buffer =
    C_state | C_log | C_err_kind | C_err_msg | C_configs | C_diff_state | C_formated_state

datatype entry =
    Nmstate_net_state_retrieve
  | Nmstate_net_state_apply
  | Nmstate_checkpoint_commit
  | Nmstate_checkpoint_rollback
  | Nmstate_generate_configurations
  | Nmstate_generate_differences
  | Nmstate_net_state_format
  | Nmstate_net_state_from_policy

text \<open>
  One argument of a call into the library: the flag word, a text buffer owned by Python
  (\<^verbatim>\<open>c_char_p(...)\<close>), a plain integer, or \<^verbatim>\<open>byref(buffer)\<close>, an output slot the engine
  may fill with a string it allocated.
\<close>

datatype arg = AFlags int | AText "bytes option" | AInt int | ByRef buffer

text \<open>
  What the engine answered to one call: the status code and, for each output slot, the
  \<^verbatim>\<open>.value\<close> read back from it.
\<close>

record engine_out =
  rc :: int
  buf :: "buffer \<Rightarrow> bytes option"

datatype level = ERROR | WARNING | INFO | DEBUG

text \<open>
  The observable effects of the wrapper, in program order: a call into the library, an
  entry into \<^verbatim>\<open>parse_log\<close>, a record handed to \<^verbatim>\<open>logging\<close>, and a call of
  \<^verbatim>\<open>lib.nmstate_cstring_free\<close>.
\<close>

datatype event =
    Invoke entry "arg list"
  | ParseLog "bytes option"
  | Logging level str
  | Free buffer

type_synonym 'a comp = "event list \<times> (py_exc + 'a)"

definition and_then :: "unit comp \<Rightarrow> 'a comp \<Rightarrow> 'a comp" where
  "and_then a b = (case snd a of Inl e \<Rightarrow> (fst a, Inl e) | Inr _ \<Rightarrow> (fst a @ fst b, snd b))"

definition after :: "event list \<Rightarrow> 'a comp \<Rightarrow> 'a comp" where
  "after evs c = (evs @ fst c, snd c)"

definition NMSTATE_FLAG_NONE :: int where "NMSTATE_FLAG_NONE = 0"
definition NMSTATE_FLAG_KERNEL_ONLY :: int where "NMSTATE_FLAG_KERNEL_ONLY = push_bit 1 1"
definition NMSTATE_FLAG_NO_VERIFY :: int where "NMSTATE_FLAG_NO_VERIFY = push_bit 2 1"
definition NMSTATE_FLAG_INCLUDE_STATUS_DATA :: int where
  "NMSTATE_FLAG_INCLUDE_STATUS_DATA = push_bit 3 1"
definition NMSTATE_FLAG_INCLUDE_SECRETS :: int where
  "NMSTATE_FLAG_INCLUDE_SECRETS = push_bit 4 1"
definition NMSTATE_FLAG_NO_COMMIT :: int where "NMSTATE_FLAG_NO_COMMIT = push_bit 5 1"
definition NMSTATE_FLAG_MEMORY_ONLY :: int where "NMSTATE_FLAG_MEMORY_ONLY = push_bit 6 1"
definition NMSTATE_FLAG_RUNNING_CONFIG_ONLY :: int where
  "NMSTATE_FLAG_RUNNING_CONFIG_ONLY = push_bit 7 1"
definition NMSTATE_PASS :: int where "NMSTATE_PASS = 0"

section \<open>\<^verbatim>\<open>map_error\<close>\<close>

definition map_error :: "bytes option \<Rightarrow> bytes option \<Rightarrow> py_exc + nmstate_error" where
  "map_error err_kind err_msg =
     (case decode err_msg of
        Inl e \<Rightarrow> Inl e
      | Inr msg \<Rightarrow>
          (case decode err_kind of
             Inl e \<Rightarrow> Inl e
           | Inr kind \<Rightarrow>
               Inr (if kind = ascii ''VerificationError'' then NmstateVerificationError msg
                    else if kind = ascii ''InvalidArgument'' then NmstateValueError msg
                    else if kind = ascii ''Bug'' then NmstateInternalError msg
                    else if kind = ascii ''PluginFailure'' then NmstatePluginError msg
                    else if kind = ascii ''NotImplementedError''
                      then NmstateNotImplementedError msg
                    else if kind = ascii ''KernelIntegerRoundedError''
                      then NmstateKernelIntegerRoundedError msg
                    else if kind = ascii ''NotSupportedError'' then NmstateNotSupportedError msg
                    else if kind = ascii ''DependencyError'' then NmstateDependencyError msg
                    else if kind = ascii ''PermissionError'' then NmstatePermissionError msg
                    else NmstateError (kind @ ascii '': '' @ msg))))"

text \<open>\<^verbatim>\<open>raise map_error(err_kind, err_msg)\<close>: whatever comes out is raised.\<close>

definition raise_map_error :: "bytes option \<Rightarrow> bytes option \<Rightarrow> py_exc + 'a" where
  "raise_map_error err_kind err_msg =
     (case map_error err_kind err_msg of Inl e \<Rightarrow> Inl e | Inr v \<Rightarrow> Inl (Nmstate v))"

section \<open>\<^verbatim>\<open>parse_log\<close>\<close>

text \<open>\<^verbatim>\<open>for x in v\<close>: the items a value yields, or \<^verbatim>\<open>TypeError\<close> when it is not iterable.\<close>

fun py_iter :: "pyval \<Rightarrow> py_exc + pyval list" where
  "py_iter (PList xs) = Inr xs"
| "py_iter (PDict kvs) = Inr (map (\<lambda>kv. PStr (fst kv)) kvs)"
| "py_iter (PStr s) = Inr (map (\<lambda>c. PStr [c]) s)"
| "py_iter (PBytes b) = Inr (map (\<lambda>c. PInt (of_char c)) b)"
| "py_iter _ = Inl TypeError"

text \<open>\<^verbatim>\<open>v[key]\<close> with a \<^verbatim>\<open>str\<close> key.\<close>

fun py_getitem :: "pyval \<Rightarrow> str \<Rightarrow> py_exc + pyval" where
  "py_getitem (PDict kvs) k = (case map_of kvs k of None \<Rightarrow> Inl (KeyError k) | Some v \<Rightarrow> Inr v)"
| "py_getitem _ k = Inl TypeError"

text \<open>The body of the loop for one entry: the record it hands to \<^verbatim>\<open>logging\<close>.\<close>

definition log_one :: "py \<Rightarrow> pyval \<Rightarrow> py_exc + event" where
  "log_one P log_entry =
     (case py_getitem log_entry (ascii ''time'') of
        Inl e \<Rightarrow> Inl e
      | Inr t \<Rightarrow>
     (case py_getitem log_entry (ascii ''file'') of
        Inl e \<Rightarrow> Inl e
      | Inr f \<Rightarrow>
     (case py_getitem log_entry (ascii ''msg'') of
        Inl e \<Rightarrow> Inl e
      | Inr m \<Rightarrow>
     (let msg = py_str P t @ ascii '':'' @ py_str P f @ ascii '': '' @ py_str P m in
      case py_getitem log_entry (ascii ''level'') of
        Inl e \<Rightarrow> Inl e
      | Inr level \<Rightarrow>
          Inr (if level = PStr (ascii ''ERROR'') then Logging ERROR msg
               else if level = PStr (ascii ''WARN'') then Logging WARNING msg
               else if level = PStr (ascii ''INFO'') then Logging INFO msg
               else Logging DEBUG msg)))))"

fun log_loop :: "py \<Rightarrow> pyval list \<Rightarrow> unit comp" where
  "log_loop P [] = ([], Inr ())"
| "log_loop P (log_entry # rest) =
     (case log_one P log_entry of
        Inl e \<Rightarrow> ([], Inl e)
      | Inr ev \<Rightarrow> after [ev] (log_loop P rest))"

text \<open>
  The value of \<^verbatim>\<open>log_entries\<close> after the \<^verbatim>\<open>try\<close>: the decoded payload, or the empty
  list the variable was initialised with when decoding raised.
\<close>

definition log_entries_of :: "py \<Rightarrow> bytes \<Rightarrow> pyval" where
  "log_entries_of P logs =
     (case utf8_decode logs of
        None \<Rightarrow> PList []
      | Some s \<Rightarrow> (case json_loads P s of None \<Rightarrow> PList [] | Some v \<Rightarrow> v))"

definition parse_log :: "py \<Rightarrow> bytes option \<Rightarrow> unit comp" where
  "parse_log P logs =
     after [ParseLog logs]
       (case logs of
          None \<Rightarrow> ([], Inr ())
        | Some b \<Rightarrow>
            (case py_iter (log_entries_of P b) of
               Inl e \<Rightarrow> ([], Inl e)
             | Inr entries \<Rightarrow> log_loop P entries))"

section \<open>The wrapped operations\<close>

text \<open>
  Each operation takes the library environment \<open>P\<close>, the engine's answer \<open>out\<close> to the
  one call it makes, and its Python arguments; it yields its effects and either the
  exception it raises or the value it returns (\<open>PNone\<close> where the function has no
  \<^verbatim>\<open>return\<close>). An exception raised while the request is built, by \<^verbatim>\<open>json.dumps\<close>,
  \<^verbatim>\<open>yaml.dump\<close> or the conversion of an argument, ends the call before the engine is
  entered. A checkpoint is a bytes object or \<^verbatim>\<open>None\<close>, what \<^verbatim>\<open>c_char_p\<close> takes as a
  string.
\<close>

definition retrieve_net_state_json ::
  "py \<Rightarrow> engine_out \<Rightarrow> bool \<Rightarrow> bool \<Rightarrow> bool \<Rightarrow> bool \<Rightarrow> pyval comp" where
  "retrieve_net_state_json P out kernel_only include_status_data include_secrets
      running_config_only =
     (let flags = NMSTATE_FLAG_NONE;
          flags = (if kernel_only then flags OR NMSTATE_FLAG_KERNEL_ONLY else flags);
          flags = (if include_status_data then flags OR NMSTATE_FLAG_INCLUDE_STATUS_DATA
                   else flags);
          flags = (if include_secrets then flags OR NMSTATE_FLAG_INCLUDE_SECRETS else flags);
          flags = (if running_config_only then flags OR NMSTATE_FLAG_RUNNING_CONFIG_ONLY
                   else flags);
          state = buf out C_state;
          err_msg = buf out C_err_msg;
          err_kind = buf out C_err_kind
      in after [Invoke Nmstate_net_state_retrieve
                  [AFlags (c_uint32 flags), ByRef C_state, ByRef C_log, ByRef C_err_kind,
                   ByRef C_err_msg]]
           (and_then (parse_log P (buf out C_log))
              ([Free C_log, Free C_state, Free C_err_kind, Free C_err_msg],
               if rc out \<noteq> NMSTATE_PASS
               then Inl (Nmstate (NmstateError (fstr err_kind @ ascii '': '' @ fstr err_msg)))
               else map_sum id PStr (decode state))))"

definition apply_net_state ::
  "py \<Rightarrow> engine_out \<Rightarrow> pyval \<Rightarrow> bool \<Rightarrow> bool \<Rightarrow> bool \<Rightarrow> bool \<Rightarrow> int \<Rightarrow> pyval comp" where
  "apply_net_state P out state kernel_only verify_change save_to_disk commit rollback_timeout =
     (case json_dumps P state of
        Inl e \<Rightarrow> ([], Inl e)
      | Inr c_state \<Rightarrow>
     (let flags = NMSTATE_FLAG_NONE;
          flags = (if kernel_only then flags OR NMSTATE_FLAG_KERNEL_ONLY else flags);
          flags = (if \<not> verify_change then flags OR NMSTATE_FLAG_NO_VERIFY else flags);
          flags = (if \<not> commit then flags OR NMSTATE_FLAG_NO_COMMIT else flags);
          flags = (if \<not> save_to_disk then flags OR NMSTATE_FLAG_MEMORY_ONLY else flags);
          err_msg = buf out C_err_msg;
          err_kind = buf out C_err_kind
      in case c_int flags of
           Inl e \<Rightarrow> ([], Inl e)
         | Inr a_flags \<Rightarrow>
        (case c_int rollback_timeout of
           Inl e \<Rightarrow> ([], Inl e)
         | Inr a_timeout \<Rightarrow>
             after [Invoke Nmstate_net_state_apply
                      [AFlags a_flags, AText (Some c_state), AInt a_timeout,
                       ByRef C_log, ByRef C_err_kind, ByRef C_err_msg]]
               (and_then (parse_log P (buf out C_log))
                  ([Free C_log, Free C_err_kind, Free C_err_msg],
                   if rc out \<noteq> NMSTATE_PASS then raise_map_error err_kind err_msg
                   else Inr PNone)))))"

definition commit_checkpoint :: "py \<Rightarrow> engine_out \<Rightarrow> bytes option \<Rightarrow> pyval comp" where
  "commit_checkpoint P out checkpoint =
     (let err_msg = buf out C_err_msg;
          err_kind = buf out C_err_kind
      in after [Invoke Nmstate_checkpoint_commit
                  [AText checkpoint, ByRef C_log, ByRef C_err_kind, ByRef C_err_msg]]
           (and_then (parse_log P (buf out C_log))
              ([Free C_log, Free C_err_kind, Free C_err_msg],
               if rc out \<noteq> NMSTATE_PASS then raise_map_error err_kind err_msg
               else Inr PNone)))"

definition rollback_checkpoint :: "py \<Rightarrow> engine_out \<Rightarrow> bytes option \<Rightarrow> pyval comp" where
  "rollback_checkpoint P out checkpoint =
     (let err_msg = buf out C_err_msg;
          err_kind = buf out C_err_kind
      in after [Invoke Nmstate_checkpoint_rollback
                  [AText checkpoint, ByRef C_log, ByRef C_err_kind, ByRef C_err_msg]]
           (and_then (parse_log P (buf out C_log))
              ([Free C_log, Free C_err_kind, Free C_err_msg],
               if rc out \<noteq> NMSTATE_PASS then raise_map_error err_kind err_msg
               else Inr PNone)))"

definition gen_conf :: "py \<Rightarrow> engine_out \<Rightarrow> pyval \<Rightarrow> pyval comp" where
  "gen_conf P out state =
     (case json_dumps P state of
        Inl e \<Rightarrow> ([], Inl e)
      | Inr c_state \<Rightarrow>
     (let configs = buf out C_configs;
          err_msg = buf out C_err_msg;
          err_kind = buf out C_err_kind
      in after [Invoke Nmstate_generate_configurations
                  [AText (Some c_state), ByRef C_configs, ByRef C_log, ByRef C_err_kind,
                   ByRef C_err_msg]]
           (and_then (parse_log P (buf out C_log))
              ([Free C_log, Free C_err_kind, Free C_err_msg],
               if rc out \<noteq> NMSTATE_PASS then raise_map_error err_kind err_msg
               else map_sum id PStr (decode configs)))))"

definition gen_diff :: "py \<Rightarrow> engine_out \<Rightarrow> pyval \<Rightarrow> pyval \<Rightarrow> pyval comp" where
  "gen_diff P out new_state old_state =
     (case json_dumps P new_state of
        Inl e \<Rightarrow> ([], Inl e)
      | Inr c_new_state \<Rightarrow>
     (case json_dumps P old_state of
        Inl e \<Rightarrow> ([], Inl e)
      | Inr c_old_state \<Rightarrow>
     (let diff_state = buf out C_diff_state;
          err_msg = buf out C_err_msg;
          err_kind = buf out C_err_kind
      in after [Invoke Nmstate_generate_differences
                  [AText (Some c_new_state), AText (Some c_old_state), ByRef C_diff_state,
                   ByRef C_err_kind, ByRef C_err_msg]]
           ([Free C_err_kind, Free C_err_msg],
            if rc out \<noteq> NMSTATE_PASS then raise_map_error err_kind err_msg
            else map_sum id PStr (decode diff_state)))))"

definition net_state_serialize :: "py \<Rightarrow> engine_out \<Rightarrow> pyval \<Rightarrow> bool \<Rightarrow> pyval comp" where
  "net_state_serialize P out state use_yaml =
     (case (if use_yaml then yaml_dump P state else json_dumps P state) of
        Inl e \<Rightarrow> ([], Inl e)
      | Inr c_state \<Rightarrow>
     (let formated_state = buf out C_formated_state;
          err_msg = buf out C_err_msg;
          err_kind = buf out C_err_kind
      in after [Invoke Nmstate_net_state_format
                  [AText (Some c_state), ByRef C_formated_state, ByRef C_err_kind,
                   ByRef C_err_msg]]
           ([Free C_err_kind, Free C_err_msg],
            if rc out \<noteq> NMSTATE_PASS then raise_map_error err_kind err_msg
            else map_sum id PStr (decode formated_state))))"

definition net_state_from_policy :: "py \<Rightarrow> engine_out \<Rightarrow> pyval \<Rightarrow> pyval \<Rightarrow> pyval comp" where
  "net_state_from_policy P out policy cur_state =
     (case json_dumps P policy of
        Inl e \<Rightarrow> ([], Inl e)
      | Inr c_policy \<Rightarrow>
     (case json_dumps P cur_state of
        Inl e \<Rightarrow> ([], Inl e)
      | Inr c_cur_state \<Rightarrow>
     (let state = buf out C_state;
          err_msg = buf out C_err_msg;
          err_kind = buf out C_err_kind
      in after [Invoke Nmstate_net_state_from_policy
                  [AText (Some c_policy), AText (Some c_cur_state), ByRef C_state, ByRef C_log,
                   ByRef C_err_kind, ByRef C_err_msg]]
           (and_then (parse_log P (buf out C_log))
              ([Free C_log, Free C_err_kind, Free C_err_msg],
               if rc out \<noteq> NMSTATE_PASS then raise_map_error err_kind err_msg
               else map_sum id PStr (decode state))))))"

section \<open>Reading a trace\<close>

fun arg_flags :: "arg list \<Rightarrow> int list" where
  "arg_flags [] = []"
| "arg_flags (AFlags f # as) = f # arg_flags as"
| "arg_flags (_ # as) = arg_flags as"

fun arg_refs :: "arg list \<Rightarrow> buffer list" where
  "arg_refs [] = []"
| "arg_refs (ByRef b # as) = b # arg_refs as"
| "arg_refs (_ # as) = arg_refs as"

text \<open>The flag words sent to the engine.\<close>

fun flag_words :: "event list \<Rightarrow> int list" where
  "flag_words [] = []"
| "flag_words (Invoke e as # evs) = arg_flags as @ flag_words evs"
| "flag_words (_ # evs) = flag_words evs"

text \<open>The output slots handed to the engine, which it may have populated.\<close>

fun out_buffers :: "event list \<Rightarrow> buffer list" where
  "out_buffers [] = []"
| "out_buffers (Invoke e as # evs) = arg_refs as @ out_buffers evs"
| "out_buffers (_ # evs) = out_buffers evs"

text \<open>The buffers released through \<^verbatim>\<open>nmstate_cstring_free\<close>, in order.\<close>

fun freed :: "event list \<Rightarrow> buffer list" where
  "freed [] = []"
| "freed (Free b # evs) = b # freed evs"
| "freed (_ # evs) = freed evs"

text \<open>How many times the log bridge was entered.\<close>

fun bridge_calls :: "event list \<Rightarrow> nat" where
  "bridge_calls [] = 0"
| "bridge_calls (ParseLog l # evs) = Suc (bridge_calls evs)"
| "bridge_calls (_ # evs) = bridge_calls evs"

text \<open>Whether the engine was entered.\<close>

fun invoked :: "event list \<Rightarrow> bool" where
  "invoked [] = False"
| "invoked (Invoke e as # evs) = True"
| "invoked (_ # evs) = invoked evs"

text \<open>
  Setting further bits in the flag word of a call, everything else left as it is: the
  means to compare two runs that differ in a flag.
\<close>

fun or_flags :: "int \<Rightarrow> arg \<Rightarrow> arg" where
  "or_flags b (AFlags f) = AFlags (f OR b)"
| "or_flags b a = a"

fun with_flags :: "int \<Rightarrow> event \<Rightarrow> event" where
  "with_flags b (Invoke e as) = Invoke e (map (or_flags b) as)"
| "with_flags b ev = ev"

text \<open>The records handed to \<^verbatim>\<open>logging\<close>.\<close>

fun logged :: "event list \<Rightarrow> (level \<times> str) list" where
  "logged [] = []"
| "logged (Logging l m # evs) = (l, m) # logged evs"
| "logged (_ # evs) = logged evs"

section \<open>Every operation at once\<close>

text \<open>A call of one of the eight wrapped functions with its Python arguments.\<close>

datatype call =
    Retrieve bool bool bool bool
  | Apply pyval bool bool bool bool int
  | Commit "bytes option"
  | Rollback "bytes option"
  | GenConf pyval
  | GenDiff pyval pyval
  | Serialize pyval bool
  | FromPolicy pyval pyval

fun run :: "py \<Rightarrow> engine_out \<Rightarrow> call \<Rightarrow> pyval comp" where
  "run P out (Retrieve kernel_only include_status_data include_secrets running_config_only) =
     retrieve_net_state_json P out kernel_only include_status_data include_secrets
       running_config_only"
| "run P out (Apply state kernel_only verify_change save_to_disk commit rollback_timeout) =
     apply_net_state P out state kernel_only verify_change save_to_disk commit rollback_timeout"
| "run P out (Commit checkpoint) = commit_checkpoint P out checkpoint"
| "run P out (Rollback checkpoint) = rollback_checkpoint P out checkpoint"
| "run P out (GenConf state) = gen_conf P out state"
| "run P out (GenDiff new_state old_state) = gen_diff P out new_state old_state"
| "run P out (Serialize state use_yaml) = net_state_serialize P out state use_yaml"
| "run P out (FromPolicy policy cur_state) = net_state_from_policy P out policy cur_state"

text \<open>
  A returned value that could serve as a checkpoint handle: a byte string, the only thing
  besides \<^verbatim>\<open>None\<close> that \<^verbatim>\<open>c_char_p(checkpoint)\<close> accepts as a token.
\<close>

definition returns_handle :: "py_exc + pyval \<Rightarrow> bool" where
  "returns_handle r = (case r of Inr (PBytes h) \<Rightarrow> True | _ \<Rightarrow> False)"

text \<open>A log entry on which the four subscripts of the loop body succeed.\<close>

definition has_log_fields :: "pyval \<Rightarrow> bool" where
  "has_log_fields e =
     (case e of
        PDict kvs \<Rightarrow>
          map_of kvs (ascii ''time'') \<noteq> None \<and> map_of kvs (ascii ''file'') \<noteq> None
          \<and> map_of kvs (ascii ''msg'') \<noteq> None \<and> map_of kvs (ascii ''level'') \<noteq> None
      | _ \<Rightarrow> False)"

section \<open>A concrete environment for examples\<close>

text \<open>
  The examples below use the empty mapping and a bytes object as documents, and five log
  payloads. On these the functions here agree with \<^verbatim>\<open>json.dumps\<close> (which raises
  \<^verbatim>\<open>TypeError\<close> on the bytes object), \<^verbatim>\<open>yaml.dump\<close>, \<^verbatim>\<open>json.loads\<close> and \<^verbatim>\<open>str\<close>; no
  example depends on their value elsewhere.
\<close>

definition example_log_text :: string where
  \<open>example_log_text = ''[{"time":"t0","file":"lib.rs","msg":"up","level":"INFO"}]''\<close>

definition example_log_entries :: pyval where
  "example_log_entries =
     PList [PDict [(ascii ''time'', PStr (ascii ''t0'')), (ascii ''file'', PStr (ascii ''lib.rs'')),
                   (ascii ''msg'', PStr (ascii ''up'')), (ascii ''level'', PStr (ascii ''INFO''))]]"

definition example_loads :: "str \<Rightarrow> pyval option" where
  "example_loads s =
     (if s = ascii ''5'' then Some (PInt 5)
      else if s = ascii ''[]'' then Some (PList [])
      else if s = ascii ''[{}]'' then Some (PList [PDict []])
      else if s = ascii example_log_text then Some example_log_entries
      else None)"

definition example_str :: "pyval \<Rightarrow> str" where
  "example_str v = (case v of PStr s \<Rightarrow> s | _ \<Rightarrow> ascii ''None'')"

definition example_dumps :: "pyval \<Rightarrow> py_exc + bytes" where
  "example_dumps v = (case v of PBytes b \<Rightarrow> Inl TypeError | _ \<Rightarrow> Inr ''{}'')"

definition example_py :: py where
  "example_py =
     \<lparr>json_dumps = example_dumps, yaml_dump = (\<lambda>v. Inr (''{}'' @ [CHR 0x0A])),
      json_loads = example_loads, py_str = example_str\<rparr>"

text \<open>An engine answer given by its status code and the slots it filled.\<close>

definition reply :: "int \<Rightarrow> (buffer \<times> bytes) list \<Rightarrow> engine_out" where
  "reply r slots = \<lparr>rc = r, buf = map_of slots\<rparr>"

section \<open>Trace lemmas\<close>

lemmas flag_defs =
  NMSTATE_FLAG_NONE_def NMSTATE_FLAG_KERNEL_ONLY_def NMSTATE_FLAG_NO_VERIFY_def
  NMSTATE_FLAG_INCLUDE_STATUS_DATA_def NMSTATE_FLAG_INCLUDE_SECRETS_def
  NMSTATE_FLAG_NO_COMMIT_def NMSTATE_FLAG_MEMORY_ONLY_def
  NMSTATE_FLAG_RUNNING_CONFIG_ONLY_def

lemma flag_words_append: "flag_words (xs @ ys) = flag_words xs @ flag_words ys"
  by (induction xs rule: flag_words.induct) simp_all

lemma out_buffers_append: "out_buffers (xs @ ys) = out_buffers xs @ out_buffers ys"
  by (induction xs rule: out_buffers.induct) simp_all

lemma freed_append: "freed (xs @ ys) = freed xs @ freed ys"
  by (induction xs rule: freed.induct) simp_all

lemma bridge_calls_append: "bridge_calls (xs @ ys) = bridge_calls xs + bridge_calls ys"
  by (induction xs rule: bridge_calls.induct) simp_all

lemma logged_append: "logged (xs @ ys) = logged xs @ logged ys"
  by (induction xs rule: logged.induct) simp_all

lemma invoked_append: "invoked (xs @ ys) = (invoked xs \<or> invoked ys)"
  by (induction xs rule: invoked.induct) simp_all

lemma with_flags_quiet: "\<not> invoked evs \<Longrightarrow> map (with_flags b) evs = evs"
  by (induction evs rule: invoked.induct) simp_all

lemma fst_after: "fst (after evs c) = evs @ fst c"
  by (simp add: after_def)

lemma snd_after: "snd (after evs c) = snd c"
  by (simp add: after_def)

lemma log_loop_quiet:
  "flag_words (fst (log_loop P es)) = [] \<and> out_buffers (fst (log_loop P es)) = []
   \<and> freed (fst (log_loop P es)) = [] \<and> bridge_calls (fst (log_loop P es)) = 0
   \<and> \<not> invoked (fst (log_loop P es))"
proof (induction es)
  case Nil
  show ?case by simp
next
  case (Cons a es)
  show ?case
  proof (cases "log_one P a")
    case (Inl e)
    then show ?thesis by simp
  next
    case (Inr ev)
    have "\<exists>l m. ev = Logging l m"
      using Inr by (auto simp: log_one_def Let_def split: sum.splits if_splits)
    then show ?thesis using Inr Cons by (auto simp: fst_after)
  qed
qed

lemma parse_log_trace:
  "flag_words (fst (parse_log P logs)) = [] \<and> out_buffers (fst (parse_log P logs)) = []
   \<and> freed (fst (parse_log P logs)) = [] \<and> bridge_calls (fst (parse_log P logs)) = 1
   \<and> \<not> invoked (fst (parse_log P logs))"
  using log_loop_quiet
  by (auto simp: parse_log_def fst_after split: option.splits sum.splits)

lemma flag_words_and_then:
  "flag_words (fst (and_then (parse_log P logs) c)) =
     (case snd (parse_log P logs) of Inl e \<Rightarrow> [] | Inr u \<Rightarrow> flag_words (fst c))"
  using parse_log_trace [of P logs]
  by (simp add: and_then_def flag_words_append split: sum.splits)

lemma out_buffers_and_then:
  "out_buffers (fst (and_then (parse_log P logs) c)) =
     (case snd (parse_log P logs) of Inl e \<Rightarrow> [] | Inr u \<Rightarrow> out_buffers (fst c))"
  using parse_log_trace [of P logs]
  by (simp add: and_then_def out_buffers_append split: sum.splits)

lemma freed_and_then:
  "freed (fst (and_then (parse_log P logs) c)) =
     (case snd (parse_log P logs) of Inl e \<Rightarrow> [] | Inr u \<Rightarrow> freed (fst c))"
  using parse_log_trace [of P logs]
  by (simp add: and_then_def freed_append split: sum.splits)

lemma bridge_calls_and_then:
  "bridge_calls (fst (and_then (parse_log P logs) c)) =
     (case snd (parse_log P logs) of Inl e \<Rightarrow> 1 | Inr u \<Rightarrow> Suc (bridge_calls (fst c)))"
  using parse_log_trace [of P logs]
  by (simp add: and_then_def bridge_calls_append split: sum.splits)

lemma invoked_and_then:
  "invoked (fst (and_then (parse_log P logs) c)) =
     (case snd (parse_log P logs) of Inl e \<Rightarrow> False | Inr u \<Rightarrow> invoked (fst c))"
  using parse_log_trace [of P logs]
  by (simp add: and_then_def invoked_append split: sum.splits)

lemma snd_and_then:
  "snd (and_then a c) = (case snd a of Inl e \<Rightarrow> Inl e | Inr u \<Rightarrow> snd c)"
  by (simp add: and_then_def split: sum.splits)

lemmas op_defs =
  retrieve_net_state_json_def apply_net_state_def commit_checkpoint_def
  rollback_checkpoint_def gen_conf_def gen_diff_def net_state_serialize_def
  net_state_from_policy_def

lemmas trace_simps =
  fst_after snd_after flag_words_append out_buffers_append freed_append bridge_calls_append
  invoked_append flag_words_and_then out_buffers_and_then freed_and_then
  bridge_calls_and_then invoked_and_then snd_and_then

subsection \<open>When the engine is entered\<close>

lemma invoked_retrieve_net_state_json:
  "invoked (fst (retrieve_net_state_json P out kernel_only include_status_data
      include_secrets running_config_only))"
  by (simp add: retrieve_net_state_json_def Let_def fst_after)

lemma invoked_apply_net_state:
  "invoked (fst (apply_net_state P out state kernel_only verify_change save_to_disk commit
      rollback_timeout)) =
     (\<not> isl (json_dumps P state) \<and> \<not> isl (c_int rollback_timeout))"
  by (simp add: apply_net_state_def Let_def fst_after flag_defs c_int_def split: sum.splits)

lemma invoked_commit_checkpoint: "invoked (fst (commit_checkpoint P out checkpoint))"
  by (simp add: commit_checkpoint_def Let_def fst_after)

lemma invoked_rollback_checkpoint: "invoked (fst (rollback_checkpoint P out checkpoint))"
  by (simp add: rollback_checkpoint_def Let_def fst_after)

lemma invoked_gen_conf:
  "invoked (fst (gen_conf P out state)) = (\<not> isl (json_dumps P state))"
  by (simp add: gen_conf_def Let_def fst_after split: sum.splits)

lemma invoked_gen_diff:
  "invoked (fst (gen_diff P out new_state old_state)) =
     (\<not> isl (json_dumps P new_state) \<and> \<not> isl (json_dumps P old_state))"
  by (simp add: gen_diff_def Let_def fst_after split: sum.splits)

lemma invoked_net_state_serialize:
  "invoked (fst (net_state_serialize P out state use_yaml)) =
     (\<not> isl (if use_yaml then yaml_dump P state else json_dumps P state))"
  by (simp add: net_state_serialize_def Let_def fst_after split: sum.splits)

lemma invoked_net_state_from_policy:
  "invoked (fst (net_state_from_policy P out policy cur_state)) =
     (\<not> isl (json_dumps P policy) \<and> \<not> isl (json_dumps P cur_state))"
  by (simp add: net_state_from_policy_def Let_def fst_after split: sum.splits)

lemmas invoked_ops =
  invoked_retrieve_net_state_json invoked_apply_net_state invoked_commit_checkpoint
  invoked_rollback_checkpoint invoked_gen_conf invoked_gen_diff invoked_net_state_serialize
  invoked_net_state_from_policy

subsection \<open>What each operation raises or returns\<close>

lemma snd_retrieve_net_state_json:
  "snd (retrieve_net_state_json P out kernel_only include_status_data include_secrets
      running_config_only) =
     (case snd (parse_log P (buf out C_log)) of
        Inl e \<Rightarrow> Inl e
      | Inr u \<Rightarrow>
          if rc out \<noteq> NMSTATE_PASS
          then Inl (Nmstate (NmstateError
                 (fstr (buf out C_err_kind) @ ascii '': '' @ fstr (buf out C_err_msg))))
          else map_sum id PStr (decode (buf out C_state)))"
  by (simp add: retrieve_net_state_json_def Let_def snd_after snd_and_then split: sum.splits)

lemma snd_apply_net_state:
  "snd (apply_net_state P out state kernel_only verify_change save_to_disk commit
      rollback_timeout) =
     (case json_dumps P state of
        Inl e \<Rightarrow> Inl e
      | Inr c_state \<Rightarrow>
     (case c_int rollback_timeout of
        Inl e \<Rightarrow> Inl e
      | Inr a_timeout \<Rightarrow>
     (case snd (parse_log P (buf out C_log)) of
        Inl e \<Rightarrow> Inl e
      | Inr u \<Rightarrow>
          if rc out \<noteq> NMSTATE_PASS
          then raise_map_error (buf out C_err_kind) (buf out C_err_msg)
          else Inr PNone)))"
  by (simp add: apply_net_state_def Let_def snd_after snd_and_then flag_defs c_int_def
      split: sum.splits)

lemma snd_commit_checkpoint:
  "snd (commit_checkpoint P out checkpoint) =
     (case snd (parse_log P (buf out C_log)) of
        Inl e \<Rightarrow> Inl e
      | Inr u \<Rightarrow>
          if rc out \<noteq> NMSTATE_PASS
          then raise_map_error (buf out C_err_kind) (buf out C_err_msg)
          else Inr PNone)"
  by (simp add: commit_checkpoint_def Let_def snd_after snd_and_then split: sum.splits)

lemma snd_rollback_checkpoint:
  "snd (rollback_checkpoint P out checkpoint) =
     (case snd (parse_log P (buf out C_log)) of
        Inl e \<Rightarrow> Inl e
      | Inr u \<Rightarrow>
          if rc out \<noteq> NMSTATE_PASS
          then raise_map_error (buf out C_err_kind) (buf out C_err_msg)
          else Inr PNone)"
  by (simp add: rollback_checkpoint_def Let_def snd_after snd_and_then split: sum.splits)

lemma snd_gen_conf:
  "snd (gen_conf P out state) =
     (case json_dumps P state of
        Inl e \<Rightarrow> Inl e
      | Inr c_state \<Rightarrow>
     (case snd (parse_log P (buf out C_log)) of
        Inl e \<Rightarrow> Inl e
      | Inr u \<Rightarrow>
          if rc out \<noteq> NMSTATE_PASS
          then raise_map_error (buf out C_err_kind) (buf out C_err_msg)
          else map_sum id PStr (decode (buf out C_configs))))"
  by (simp add: gen_conf_def Let_def snd_after snd_and_then split: sum.splits)

lemma snd_gen_diff:
  "snd (gen_diff P out new_state old_state) =
     (case json_dumps P new_state of
        Inl e \<Rightarrow> Inl e
      | Inr c_new_state \<Rightarrow>
     (case json_dumps P old_state of
        Inl e \<Rightarrow> Inl e
      | Inr c_old_state \<Rightarrow>
          if rc out \<noteq> NMSTATE_PASS
          then raise_map_error (buf out C_err_kind) (buf out C_err_msg)
          else map_sum id PStr (decode (buf out C_diff_state))))"
  by (simp add: gen_diff_def Let_def snd_after split: sum.splits)

lemma snd_net_state_serialize:
  "snd (net_state_serialize P out state use_yaml) =
     (case (if use_yaml then yaml_dump P state else json_dumps P state) of
        Inl e \<Rightarrow> Inl e
      | Inr c_state \<Rightarrow>
          if rc out \<noteq> NMSTATE_PASS
          then raise_map_error (buf out C_err_kind) (buf out C_err_msg)
          else map_sum id PStr (decode (buf out C_formated_state)))"
  by (simp add: net_state_serialize_def Let_def snd_after split: sum.splits)

lemma snd_net_state_from_policy:
  "snd (net_state_from_policy P out policy cur_state) =
     (case json_dumps P policy of
        Inl e \<Rightarrow> Inl e
      | Inr c_policy \<Rightarrow>
     (case json_dumps P cur_state of
        Inl e \<Rightarrow> Inl e
      | Inr c_cur_state \<Rightarrow>
     (case snd (parse_log P (buf out C_log)) of
        Inl e \<Rightarrow> Inl e
      | Inr u \<Rightarrow>
          if rc out \<noteq> NMSTATE_PASS
          then raise_map_error (buf out C_err_kind) (buf out C_err_msg)
          else map_sum id PStr (decode (buf out C_state)))))"
  by (simp add: net_state_from_policy_def Let_def snd_after snd_and_then split: sum.splits)

lemmas snd_ops =
  snd_retrieve_net_state_json snd_apply_net_state snd_commit_checkpoint
  snd_rollback_checkpoint snd_gen_conf snd_gen_diff snd_net_state_serialize
  snd_net_state_from_policy

subsection \<open>Strings, log entries and small facts\<close>

lemma ascii_eq_iff: "ascii a = ascii b \<longleftrightarrow> a = b"
proof -
  have "inj (of_char :: char \<Rightarrow> nat)"
    by (rule injI) simp
  then have "inj (map (of_char :: char \<Rightarrow> nat))"
    by simp
  then show ?thesis
    by (auto simp: ascii_def dest: injD)
qed

lemma log_one_fields: "has_log_fields e \<Longrightarrow> \<exists>l m. log_one P e = Inr (Logging l m)"
  by (cases e) (auto simp: has_log_fields_def log_one_def Let_def)

lemma log_loop_fields:
  "list_all has_log_fields es \<Longrightarrow>
     snd (log_loop P es) = Inr () \<and> length (logged (fst (log_loop P es))) = length es"
proof (induction es)
  case Nil
  show ?case by simp
next
  case (Cons e es)
  then obtain l m where "log_one P e = Inr (Logging l m)"
    using log_one_fields [of e P] by auto
  then show ?case using Cons by (simp add: after_def)
qed

lemma example_record:
  "logged (fst (parse_log example_py (Some example_log_text))) =
     [(INFO, ascii ''t0:lib.rs: up'')]"
proof -
  have e: "log_entries_of example_py example_log_text = example_log_entries"
    by (simp add: log_entries_of_def utf8_decode_def example_py_def example_loads_def
        ascii_def example_log_text_def)
  have f: "py_str example_py = example_str"
    by (simp add: example_py_def)
  show ?thesis
    by (simp add: parse_log_def e example_log_entries_def after_def log_one_def Let_def
        ascii_eq_iff f example_str_def)
       (simp add: ascii_def)
qed

lemma parse_log_not_a_list:
  "parse_log example_py (Some ''5'') = ([ParseLog (Some ''5'')], Inl TypeError)"
proof -
  have "log_entries_of example_py ''5'' = PInt 5"
    by (simp add: log_entries_of_def utf8_decode_def example_py_def example_loads_def
        ascii_def)
  then show ?thesis
    by (simp add: parse_log_def after_def)
qed

lemma isl_raise_map_error: "isl (raise_map_error k m :: py_exc + 'a)"
  by (simp add: raise_map_error_def split: sum.splits)

lemma parse_log_None: "parse_log P None = ([ParseLog None], Inr ())"
  by (simp add: parse_log_def after_def)

lemma decode_Some: "utf8_decode b = Some s \<Longrightarrow> decode (Some b) = Inr s"
  by (simp add: decode_def)

lemma decode_Inr: "decode x = Inr s \<Longrightarrow> \<exists>b. x = Some b \<and> utf8_decode b = Some s"
  by (auto simp: decode_def split: option.splits)

subsection \<open>The example environment\<close>

lemma example_documents:
  "json_dumps example_py (PDict []) = Inr ''{}''"
  "json_dumps example_py (PBytes ''x'') = Inl TypeError"
  "yaml_dump example_py (PDict []) = Inr (''{}'' @ [CHR 0x0A])"
  by (simp_all add: example_py_def example_dumps_def)

lemma c_int_examples:
  "c_int 60 = Inr 60"
  "c_int (2 ^ 64) = Inl ArgumentError"
  by (simp_all add: c_int_def)

lemma reply_simps:
  "rc (reply r slots) = r"
  "buf (reply r slots) = map_of slots"
  by (simp_all add: reply_def)

lemma with_flags_and_then:
  "\<not> invoked (fst c) \<Longrightarrow>
     map (with_flags b) (fst (and_then (parse_log P logs) c)) = fst (and_then (parse_log P logs) c)"
  by (rule with_flags_quiet) (simp add: invoked_and_then split: sum.splits)

section \<open>Flag encoding\<close>

text \<open>
  C5. For every combination of the boolean options, the flag word sent to the engine is the
  bitwise OR of the flag bits selected: for retrieval kernel_only gives 1<<1,
  include_status_data 1<<3, include_secrets 1<<4, running_config_only 1<<7; for apply
  kernel_only gives 1<<1, verify_change=false 1<<2, commit=false 1<<5, save_to_disk=false
  1<<6. With every parameter at its default (retrieval: all false; apply: kernel_only=false,
  verify_change, save_to_disk and commit true, rollback_timeout=60) the word is zero.
  Retrieval always enters the engine; apply enters it, and then sends this one word, unless
  serialising the state or converting rollback_timeout raised.
\<close>

theorem flag_word_is_or_of_selected_bits:
  "flag_words (fst (retrieve_net_state_json P out kernel_only include_status_data
      include_secrets running_config_only)) =
     [(if kernel_only then push_bit 1 1 else 0)
      OR (if include_status_data then push_bit 3 1 else 0)
      OR (if include_secrets then push_bit 4 1 else 0)
      OR (if running_config_only then push_bit 7 1 else 0)]
   \<and> flag_words (fst (apply_net_state P out' state kernel_only verify_change save_to_disk
        commit rollback_timeout)) =
     (if invoked (fst (apply_net_state P out' state kernel_only verify_change save_to_disk
        commit rollback_timeout))
      then [(if kernel_only then push_bit 1 1 else 0)
            OR (if verify_change then 0 else push_bit 2 1)
            OR (if commit then 0 else push_bit 5 1)
            OR (if save_to_disk then 0 else push_bit 6 1)]
      else [])
   \<and> invoked (fst (apply_net_state P out' state kernel_only verify_change save_to_disk
        commit rollback_timeout)) =
     (\<not> isl (json_dumps P state) \<and> \<not> isl (c_int rollback_timeout))
   \<and> flag_words (fst (retrieve_net_state_json P out False False False False)) = [0]
   \<and> flag_words (fst (apply_net_state P out' state False True True True 60)) =
     (if isl (json_dumps P state) then [] else [0])"
proof -
  have r: "flag_words (fst (retrieve_net_state_json P out kernel_only include_status_data
      include_secrets running_config_only)) =
     [(if kernel_only then push_bit 1 1 else 0)
      OR (if include_status_data then push_bit 3 1 else 0)
      OR (if include_secrets then push_bit 4 1 else 0)
      OR (if running_config_only then push_bit 7 1 else 0)]"
    for kernel_only include_status_data include_secrets running_config_only
    by (simp add: retrieve_net_state_json_def trace_simps flag_defs c_uint32_def Let_def
        split: sum.splits)
  have a: "flag_words (fst (apply_net_state P out' state kernel_only verify_change
        save_to_disk commit rollback_timeout)) =
     (if invoked (fst (apply_net_state P out' state kernel_only verify_change save_to_disk
        commit rollback_timeout))
      then [(if kernel_only then push_bit 1 1 else 0)
            OR (if verify_change then 0 else push_bit 2 1)
            OR (if commit then 0 else push_bit 5 1)
            OR (if save_to_disk then 0 else push_bit 6 1)]
      else [])"
    for kernel_only verify_change save_to_disk commit rollback_timeout
    by (simp add: apply_net_state_def trace_simps flag_defs c_int_def Let_def
        split: sum.splits)
  have d: "flag_words (fst (apply_net_state P out' state False True True True 60)) =
     (if isl (json_dumps P state) then [] else [0])"
    using a [of False True True True 60]
    by (simp add: invoked_apply_net_state c_int_examples)
  from r [of kernel_only include_status_data include_secrets running_config_only]
    r [of False False False False] a d invoked_apply_net_state
  show ?thesis by simp
qed

theorem flag_word_is_or_of_selected_bits_witness:
  "flag_words (fst (retrieve_net_state_json example_py (reply 0 []) False False False True))
     = [128]
   \<and> flag_words (fst (apply_net_state example_py (reply 0 []) (PDict []) False True True
        False 60)) = [32]
   \<and> flag_words (fst (apply_net_state example_py (reply 0 []) (PDict []) False True True
        True 60)) = [0]"
  using flag_word_is_or_of_selected_bits [where P = example_py and out = "reply 0 []"
      and out' = "reply 0 []" and state = "PDict []" and kernel_only = False
      and include_status_data = False and include_secrets = False
      and running_config_only = True and verify_change = True and save_to_disk = True
      and commit = False and rollback_timeout = 60]
  by (simp add: example_documents c_int_examples)

text \<open>
  C10. Every flag word the wrapper sends to the engine is non-negative, below 256 and has
  bit 0 clear. Retrieval sends exactly one word, within the bits 1<<1, 1<<3, 1<<4, 1<<7;
  apply sends one word when it enters the engine and none otherwise, within the bits 1<<1,
  1<<2, 1<<5, 1<<6; a retrieval word and an apply word have nothing in common beyond the
  kernel-only bit 1<<1. The other six operations send no flag word.
\<close>

theorem flag_words_bounded_and_disjoint:
  "list_all (\<lambda>f. 0 \<le> f \<and> f < 256 \<and> \<not> bit f 0) (flag_words (fst (run P out c)))
   \<and> (\<exists>f. flag_words (fst (retrieve_net_state_json P out kernel_only include_status_data
                 include_secrets running_config_only)) = [f]
         \<and> f AND (push_bit 1 1 OR push_bit 3 1 OR push_bit 4 1 OR push_bit 7 1) = f
         \<and> list_all
              (\<lambda>g. g AND (push_bit 1 1 OR push_bit 2 1 OR push_bit 5 1 OR push_bit 6 1) = g
                   \<and> f AND g AND NOT (push_bit 1 1) = 0)
              (flag_words (fst (apply_net_state P out' state kernel_only' verify_change
                 save_to_disk commit rollback_timeout))))
   \<and> length (flag_words (fst (apply_net_state P out' state kernel_only' verify_change
        save_to_disk commit rollback_timeout))) =
       (if invoked (fst (apply_net_state P out' state kernel_only' verify_change
          save_to_disk commit rollback_timeout)) then 1 else 0)
   \<and> flag_words (fst (commit_checkpoint P out checkpoint)) = []
   \<and> flag_words (fst (rollback_checkpoint P out checkpoint)) = []
   \<and> flag_words (fst (gen_conf P out state)) = []
   \<and> flag_words (fst (gen_diff P out new_state old_state)) = []
   \<and> flag_words (fst (net_state_serialize P out state use_yaml)) = []
   \<and> flag_words (fst (net_state_from_policy P out policy cur_state)) = []"
proof -
  have all: "list_all (\<lambda>f. 0 \<le> f \<and> f < 256 \<and> \<not> bit f 0) (flag_words (fst (run P out c)))"
    by (cases c)
      (simp_all add: op_defs trace_simps flag_defs c_int_def c_uint32_def Let_def
        split: sum.splits)
  have two: "\<exists>f. flag_words (fst (retrieve_net_state_json P out kernel_only
                 include_status_data include_secrets running_config_only)) = [f]
         \<and> f AND (push_bit 1 1 OR push_bit 3 1 OR push_bit 4 1 OR push_bit 7 1) = f
         \<and> list_all
              (\<lambda>g. g AND (push_bit 1 1 OR push_bit 2 1 OR push_bit 5 1 OR push_bit 6 1) = g
                   \<and> f AND g AND NOT (push_bit 1 1) = 0)
              (flag_words (fst (apply_net_state P out' state kernel_only' verify_change
                 save_to_disk commit rollback_timeout)))"
    by (simp add: op_defs trace_simps flag_defs c_int_def c_uint32_def Let_def
        split: sum.splits)
  have one: "length (flag_words (fst (apply_net_state P out' state kernel_only' verify_change
        save_to_disk commit rollback_timeout))) =
       (if invoked (fst (apply_net_state P out' state kernel_only' verify_change
          save_to_disk commit rollback_timeout)) then 1 else 0)"
    by (simp add: apply_net_state_def trace_simps flag_defs c_int_def Let_def
        split: sum.splits)
  have rest:
    "flag_words (fst (commit_checkpoint P out checkpoint)) = []"
    "flag_words (fst (rollback_checkpoint P out checkpoint)) = []"
    "flag_words (fst (gen_conf P out state)) = []"
    "flag_words (fst (gen_diff P out new_state old_state)) = []"
    "flag_words (fst (net_state_serialize P out state use_yaml)) = []"
    "flag_words (fst (net_state_from_policy P out policy cur_state)) = []"
    by (simp_all add: op_defs trace_simps Let_def split: sum.splits)
  from all two one rest show ?thesis by blast
qed

theorem flag_words_bounded_and_disjoint_witness:
  "flag_words (fst (apply_net_state example_py (reply 0 []) (PDict []) True False False
     False 60)) = [102]
   \<and> length (flag_words (fst (apply_net_state example_py (reply 0 []) (PDict []) True False
        False False 60))) = 1"
proof -
  have w: "flag_words (fst (apply_net_state example_py (reply 0 []) (PDict []) True False
     False False 60)) = [102]"
    by (simp add: apply_net_state_def trace_simps flag_defs c_int_def Let_def
        example_documents split: sum.splits)
  show ?thesis
    using flag_words_bounded_and_disjoint [where P = example_py and out' = "reply 0 []"
        and state = "PDict []" and kernel_only' = True and verify_change = False
        and save_to_disk = False and commit = False and rollback_timeout = 60] w
    by simp
qed

section \<open>Log bridging\<close>




section \<open>Releasing the engine's buffers\<close>

text \<open>
  C3. The specification asks that every output buffer handed to the engine be released once,
  the primary result buffers of config generation, diff and serialization included. The
  code does not do so: a diff or a serialization that enters the engine hands it three
  output slots and releases two, the result slot \<^verbatim>\<open>c_diff_state\<close> resp.
  \<^verbatim>\<open>c_formated_state\<close> never; config generation and policy evaluation hand over four
  slots and never release \<^verbatim>\<open>c_configs\<close> resp. \<^verbatim>\<open>c_state\<close>. Retrieval, the sibling, does
  release its \<^verbatim>\<open>c_state\<close>; but when the log bridge raises, as on the payload \<^verbatim>\<open>5\<close>, it
  releases none of its four buffers.
\<close>

theorem result_buffers_not_released:
  "out_buffers (fst (gen_diff P out new_state old_state)) =
     (if invoked (fst (gen_diff P out new_state old_state))
      then [C_diff_state, C_err_kind, C_err_msg] else [])
   \<and> freed (fst (gen_diff P out new_state old_state)) =
     (if invoked (fst (gen_diff P out new_state old_state))
      then [C_err_kind, C_err_msg] else [])
   \<and> out_buffers (fst (net_state_serialize P out state use_yaml)) =
     (if invoked (fst (net_state_serialize P out state use_yaml))
      then [C_formated_state, C_err_kind, C_err_msg] else [])
   \<and> freed (fst (net_state_serialize P out state use_yaml)) =
     (if invoked (fst (net_state_serialize P out state use_yaml))
      then [C_err_kind, C_err_msg] else [])
   \<and> out_buffers (fst (gen_conf P out state)) =
     (if invoked (fst (gen_conf P out state))
      then [C_configs, C_log, C_err_kind, C_err_msg] else [])
   \<and> C_configs \<notin> set (freed (fst (gen_conf P out state)))
   \<and> out_buffers (fst (net_state_from_policy P out policy cur_state)) =
     (if invoked (fst (net_state_from_policy P out policy cur_state))
      then [C_state, C_log, C_err_kind, C_err_msg] else [])
   \<and> C_state \<notin> set (freed (fst (net_state_from_policy P out policy cur_state)))
   \<and> out_buffers (fst (gen_diff example_py (reply 0 [(C_diff_state, ''{}'')]) (PDict [])
        (PDict []))) = [C_diff_state, C_err_kind, C_err_msg]
   \<and> freed (fst (gen_diff example_py (reply 0 [(C_diff_state, ''{}'')]) (PDict [])
        (PDict []))) = [C_err_kind, C_err_msg]
   \<and> snd (gen_diff example_py (reply 0 [(C_diff_state, ''{}'')]) (PDict []) (PDict []))
       = Inr (PStr (ascii ''{}''))
   \<and> freed (fst (retrieve_net_state_json example_py (reply 0 [(C_state, ''{}'')])
        False False False False)) = [C_log, C_state, C_err_kind, C_err_msg]
   \<and> freed (fst (retrieve_net_state_json example_py
        (reply 0 [(C_state, ''{}''), (C_log, ''5'')]) False False False False)) = []"
proof -
  have leaks:
    "out_buffers (fst (gen_diff P out new_state old_state)) =
     (if invoked (fst (gen_diff P out new_state old_state))
      then [C_diff_state, C_err_kind, C_err_msg] else [])"
    "freed (fst (gen_diff P out new_state old_state)) =
     (if invoked (fst (gen_diff P out new_state old_state))
      then [C_err_kind, C_err_msg] else [])"
    "out_buffers (fst (net_state_serialize P out state use_yaml)) =
     (if invoked (fst (net_state_serialize P out state use_yaml))
      then [C_formated_state, C_err_kind, C_err_msg] else [])"
    "freed (fst (net_state_serialize P out state use_yaml)) =
     (if invoked (fst (net_state_serialize P out state use_yaml))
      then [C_err_kind, C_err_msg] else [])"
    "out_buffers (fst (gen_conf P out state)) =
     (if invoked (fst (gen_conf P out state))
      then [C_configs, C_log, C_err_kind, C_err_msg] else [])"
    "C_configs \<notin> set (freed (fst (gen_conf P out state)))"
    "out_buffers (fst (net_state_from_policy P out policy cur_state)) =
     (if invoked (fst (net_state_from_policy P out policy cur_state))
      then [C_state, C_log, C_err_kind, C_err_msg] else [])"
    "C_state \<notin> set (freed (fst (net_state_from_policy P out policy cur_state)))"
    by (simp_all add: gen_diff_def net_state_serialize_def gen_conf_def
        net_state_from_policy_def trace_simps Let_def split: sum.splits)
  have failing:
    "out_buffers (fst (gen_diff example_py (reply 0 [(C_diff_state, ''{}'')]) (PDict [])
        (PDict []))) = [C_diff_state, C_err_kind, C_err_msg]"
    "freed (fst (gen_diff example_py (reply 0 [(C_diff_state, ''{}'')]) (PDict [])
        (PDict []))) = [C_err_kind, C_err_msg]"
    "snd (gen_diff example_py (reply 0 [(C_diff_state, ''{}'')]) (PDict []) (PDict []))
       = Inr (PStr (ascii ''{}''))"
    by (simp_all add: gen_diff_def example_documents Let_def after_def reply_simps
        NMSTATE_PASS_def decode_def utf8_decode_def ascii_def)
  have sibling:
    "freed (fst (retrieve_net_state_json example_py (reply 0 [(C_state, ''{}'')])
        False False False False)) = [C_log, C_state, C_err_kind, C_err_msg]"
    by (simp add: retrieve_net_state_json_def Let_def reply_simps parse_log_None and_then_def
        after_def NMSTATE_PASS_def)
  have raising:
    "freed (fst (retrieve_net_state_json example_py
        (reply 0 [(C_state, ''{}''), (C_log, ''5'')]) False False False False)) = []"
    by (simp add: retrieve_net_state_json_def Let_def reply_simps parse_log_not_a_list
        and_then_def after_def)
  from leaks failing sibling raising show ?thesis by blast
qed

section \<open>Error mapping\<close>

text \<open>
  C2. On every pair of strings, that is whenever the kind bytes and the message bytes
  decode as UTF-8, \<^verbatim>\<open>map_error\<close> produces a value: each of the nine kind strings
  VerificationError, InvalidArgument, Bug, PluginFailure, NotImplementedError,
  KernelIntegerRoundedError, NotSupportedError, DependencyError, PermissionError gives its
  named error variant carrying the decoded message unchanged, and every other kind string
  gives the generic \<^verbatim>\<open>NmstateError\<close> whose text is the kind, a colon and a blank, and the
  message, both verbatim.
\<close>

theorem map_error_total_on_strings:
  assumes "utf8_decode k = Some kind" and "utf8_decode m = Some msg"
  shows "(\<exists>v. map_error (Some k) (Some m) = Inr v)
    \<and> (kind = ascii ''VerificationError'' \<longrightarrow>
         map_error (Some k) (Some m) = Inr (NmstateVerificationError msg))
    \<and> (kind = ascii ''InvalidArgument'' \<longrightarrow>
         map_error (Some k) (Some m) = Inr (NmstateValueError msg))
    \<and> (kind = ascii ''Bug'' \<longrightarrow>
         map_error (Some k) (Some m) = Inr (NmstateInternalError msg))
    \<and> (kind = ascii ''PluginFailure'' \<longrightarrow>
         map_error (Some k) (Some m) = Inr (NmstatePluginError msg))
    \<and> (kind = ascii ''NotImplementedError'' \<longrightarrow>
         map_error (Some k) (Some m) = Inr (NmstateNotImplementedError msg))
    \<and> (kind = ascii ''KernelIntegerRoundedError'' \<longrightarrow>
         map_error (Some k) (Some m) = Inr (NmstateKernelIntegerRoundedError msg))
    \<and> (kind = ascii ''NotSupportedError'' \<longrightarrow>
         map_error (Some k) (Some m) = Inr (NmstateNotSupportedError msg))
    \<and> (kind = ascii ''DependencyError'' \<longrightarrow>
         map_error (Some k) (Some m) = Inr (NmstateDependencyError msg))
    \<and> (kind = ascii ''PermissionError'' \<longrightarrow>
         map_error (Some k) (Some m) = Inr (NmstatePermissionError msg))
    \<and> (kind \<notin> set (map ascii
           [''VerificationError'', ''InvalidArgument'', ''Bug'', ''PluginFailure'',
            ''NotImplementedError'', ''KernelIntegerRoundedError'', ''NotSupportedError'',
            ''DependencyError'', ''PermissionError'']) \<longrightarrow>
         map_error (Some k) (Some m) = Inr (NmstateError (kind @ ascii '': '' @ msg)))"
proof -
  have dk: "decode (Some k) = Inr kind" and dm: "decode (Some m) = Inr msg"
    using assms by (simp_all add: decode_Some)
  show ?thesis
    by (simp add: map_error_def dk dm ascii_eq_iff)
qed

theorem map_error_total_on_strings_witness:
  "map_error (Some ''PermissionError'') (Some ''denied'') =
     Inr (NmstatePermissionError (ascii ''denied''))
   \<and> map_error (Some ''Timeout'') (Some ''denied'') =
     Inr (NmstateError (ascii ''Timeout: denied''))"
proof -
  have k1: "utf8_decode ''PermissionError'' = Some (ascii ''PermissionError'')"
    and k2: "utf8_decode ''Timeout'' = Some (ascii ''Timeout'')"
    and m: "utf8_decode ''denied'' = Some (ascii ''denied'')"
    by (simp_all add: utf8_decode_def ascii_def)
  show ?thesis
    using map_error_total_on_strings [OF k1 m] map_error_total_on_strings [OF k2 m]
    by (simp add: ascii_def)
qed

text \<open>
  C9, as the code has it. \<^verbatim>\<open>map_error\<close> produces no value when the kind or the message
  buffer is null. It decodes the message first: with a null message, or a null kind and a
  message that decodes, it raises \<^verbatim>\<open>AttributeError\<close>; with a null kind and a message that
  is not valid UTF-8 it raises \<^verbatim>\<open>UnicodeDecodeError\<close>. In a failing call of apply, commit,
  rollback, config generation or policy evaluation that entered the engine and whose log
  bridge completed, and in a failing call of diff or serialization that entered the engine,
  that \<^verbatim>\<open>AttributeError\<close> is what the caller receives.
\<close>

theorem map_error_null_buffer:
  "(k = None \<or> m = None \<longrightarrow> isl (map_error k m))
   \<and> (m = None \<longrightarrow> map_error k m = Inl AttributeError)
   \<and> (k = None \<and> decode m = Inr msg \<longrightarrow> map_error k m = Inl AttributeError)
   \<and> (k = None \<and> m = Some b \<and> utf8_decode b = None \<longrightarrow>
        map_error k m = Inl UnicodeDecodeError)
   \<and> (rc out \<noteq> NMSTATE_PASS
        \<and> (buf out C_err_msg = None
             \<or> buf out C_err_kind = None \<and> decode (buf out C_err_msg) = Inr msg') \<longrightarrow>
        (snd (parse_log P (buf out C_log)) = Inr () \<longrightarrow>
           (invoked (fst (apply_net_state P out state kernel_only verify_change save_to_disk
                commit rollback_timeout)) \<longrightarrow>
              snd (apply_net_state P out state kernel_only verify_change save_to_disk commit
                rollback_timeout) = Inl AttributeError)
           \<and> snd (commit_checkpoint P out checkpoint) = Inl AttributeError
           \<and> snd (rollback_checkpoint P out checkpoint) = Inl AttributeError
           \<and> (invoked (fst (gen_conf P out state)) \<longrightarrow>
                snd (gen_conf P out state) = Inl AttributeError)
           \<and> (invoked (fst (net_state_from_policy P out policy cur_state)) \<longrightarrow>
                snd (net_state_from_policy P out policy cur_state) = Inl AttributeError))
        \<and> (invoked (fst (gen_diff P out new_state old_state)) \<longrightarrow>
             snd (gen_diff P out new_state old_state) = Inl AttributeError)
        \<and> (invoked (fst (net_state_serialize P out state use_yaml)) \<longrightarrow>
             snd (net_state_serialize P out state use_yaml) = Inl AttributeError))"
proof -
  have a: "k = None \<or> m = None \<longrightarrow> isl (map_error k m)"
    by (auto simp: map_error_def decode_def split: sum.splits option.splits)
  have b: "m = None \<longrightarrow> map_error k m = Inl AttributeError"
    by (simp add: map_error_def decode_def)
  have c: "k = None \<and> decode m = Inr msg \<longrightarrow> map_error k m = Inl AttributeError"
    by (auto simp: map_error_def decode_def)
  have d: "k = None \<and> m = Some b \<and> utf8_decode b = None \<longrightarrow>
        map_error k m = Inl UnicodeDecodeError"
    by (simp add: map_error_def decode_def)
  have e: "raise_map_error (buf out C_err_kind) (buf out C_err_msg)
        = (Inl AttributeError :: py_exc + pyval)"
    if "buf out C_err_msg = None
          \<or> buf out C_err_kind = None \<and> decode (buf out C_err_msg) = Inr msg'"
    using that by (auto simp: raise_map_error_def map_error_def decode_def)
  have f: "rc out \<noteq> NMSTATE_PASS
        \<and> (buf out C_err_msg = None
             \<or> buf out C_err_kind = None \<and> decode (buf out C_err_msg) = Inr msg') \<longrightarrow>
        (snd (parse_log P (buf out C_log)) = Inr () \<longrightarrow>
           (invoked (fst (apply_net_state P out state kernel_only verify_change save_to_disk
                commit rollback_timeout)) \<longrightarrow>
              snd (apply_net_state P out state kernel_only verify_change save_to_disk commit
                rollback_timeout) = Inl AttributeError)
           \<and> snd (commit_checkpoint P out checkpoint) = Inl AttributeError
           \<and> snd (rollback_checkpoint P out checkpoint) = Inl AttributeError
           \<and> (invoked (fst (gen_conf P out state)) \<longrightarrow>
                snd (gen_conf P out state) = Inl AttributeError)
           \<and> (invoked (fst (net_state_from_policy P out policy cur_state)) \<longrightarrow>
                snd (net_state_from_policy P out policy cur_state) = Inl AttributeError))
        \<and> (invoked (fst (gen_diff P out new_state old_state)) \<longrightarrow>
             snd (gen_diff P out new_state old_state) = Inl AttributeError)
        \<and> (invoked (fst (net_state_serialize P out state use_yaml)) \<longrightarrow>
             snd (net_state_serialize P out state use_yaml) = Inl AttributeError)"
    using e by (auto simp: snd_ops invoked_ops split: sum.splits if_splits)
  from a b c d f show ?thesis by blast
qed

theorem map_error_null_buffer_witness:
  "map_error (Some ''Bug'') None = Inl AttributeError
   \<and> map_error None (Some ''boom'') = Inl AttributeError
   \<and> map_error None (Some [CHR 0xFF]) = Inl UnicodeDecodeError
   \<and> snd (apply_net_state example_py (reply 1 [(C_err_msg, ''boom'')]) (PDict [])
        False True True True 60) = Inl AttributeError
   \<and> snd (gen_diff example_py (reply 1 [(C_err_kind, ''Bug'')]) (PDict []) (PDict []))
       = Inl AttributeError"
proof -
  have m: "decode (Some ''boom'') = Inr (ascii ''boom'')"
    by (simp add: decode_def utf8_decode_def ascii_def)
  have bad: "utf8_decode [CHR 0xFF] = None"
    by (simp add: utf8_decode_def)
  have r: "(1::int) \<noteq> NMSTATE_PASS"
    by (simp add: NMSTATE_PASS_def)
  have i: "invoked (fst (apply_net_state example_py (reply 1 [(C_err_msg, ''boom'')])
        (PDict []) False True True True 60))"
    "invoked (fst (gen_diff example_py (reply 1 [(C_err_kind, ''Bug'')]) (PDict [])
        (PDict [])))"
    by (simp_all add: invoked_ops example_documents c_int_examples)
  show ?thesis
    using map_error_null_buffer [where k = "Some ''Bug''" and m = None]
      map_error_null_buffer [where k = None and m = "Some ''boom''"
        and msg = "ascii ''boom''"]
      map_error_null_buffer [where k = None and m = "Some [CHR 0xFF]" and b = "[CHR 0xFF]"]
      map_error_null_buffer [where out = "reply 1 [(C_err_msg, ''boom'')]"
        and msg' = "ascii ''boom''" and P = example_py and state = "PDict []"
        and kernel_only = False and verify_change = True and save_to_disk = True
        and commit = True and rollback_timeout = 60]
      map_error_null_buffer [where out = "reply 1 [(C_err_kind, ''Bug'')]"
        and P = example_py and new_state = "PDict []" and old_state = "PDict []"]
    by (simp add: m bad r i reply_simps parse_log_None)
qed

theorem null_buffer_counterexample:
  "map_error None (Some [CHR 0xFF]) = Inl UnicodeDecodeError
   \<and> map_error None (Some [CHR 0xFF]) \<noteq> Inl AttributeError
   \<and> rc (reply 1 [(C_err_msg, [CHR 0xFF])]) \<noteq> NMSTATE_PASS
   \<and> buf (reply 1 [(C_err_msg, [CHR 0xFF])]) C_err_kind = None
   \<and> snd (apply_net_state example_py (reply 1 [(C_err_msg, [CHR 0xFF])]) (PDict [])
        False True True True 60) = Inl UnicodeDecodeError"
  by (simp add: map_error_def raise_map_error_def decode_def utf8_decode_def
      snd_apply_net_state reply_simps parse_log_None NMSTATE_PASS_def example_documents
      c_int_examples)

text \<open>
  C7. The specification asks that a failing retrieval raise the error variant named by the
  engine's kind. The code does not call \<^verbatim>\<open>map_error\<close> there: whenever the engine reports
  a nonzero status and the log bridge has completed, retrieval raises the generic
  \<^verbatim>\<open>NmstateError\<close>, whose text is the f-string of the two raw buffers (their bytes
  \<^verbatim>\<open>repr\<close>), whatever the kind is. All seven sibling operations raise through
  \<^verbatim>\<open>map_error\<close>.
\<close>

theorem retrieve_failure_raises_generic:
  assumes "rc out \<noteq> NMSTATE_PASS" and "snd (parse_log P (buf out C_log)) = Inr ()"
  shows "snd (retrieve_net_state_json P out kernel_only include_status_data include_secrets
      running_config_only) =
     Inl (Nmstate (NmstateError
       (fstr (buf out C_err_kind) @ ascii '': '' @ fstr (buf out C_err_msg))))"
  using assms by (simp add: snd_retrieve_net_state_json)

theorem retrieve_failure_raises_generic_witness:
  "snd (retrieve_net_state_json example_py
      (reply 1 [(C_err_kind, ''PermissionError''), (C_err_msg, ''denied'')])
      False False False False) =
     Inl (Nmstate (NmstateError (ascii ''b'PermissionError': b'denied'' @ [39])))
   \<and> snd (retrieve_net_state_json example_py
      (reply 1 [(C_err_kind, ''PermissionError''), (C_err_msg, ''denied'')])
      False False False False) \<noteq> Inl (Nmstate (NmstatePermissionError (ascii ''denied'')))
   \<and> snd (apply_net_state example_py
      (reply 1 [(C_err_kind, ''PermissionError''), (C_err_msg, ''denied'')])
      (PDict []) False True True True 60) =
     Inl (Nmstate (NmstatePermissionError (ascii ''denied'')))"
proof -
  let ?out = "reply 1 [(C_err_kind, ''PermissionError''), (C_err_msg, ''denied'')]"
  have h1: "rc ?out \<noteq> NMSTATE_PASS"
    by (simp add: reply_def NMSTATE_PASS_def)
  have h2: "snd (parse_log example_py (buf ?out C_log)) = Inr ()"
    by (simp add: reply_def parse_log_None)
  have text_eq: "fstr (buf ?out C_err_kind) @ ascii '': '' @ fstr (buf ?out C_err_msg) =
      ascii ''b'PermissionError': b'denied'' @ [39]"
    by (simp add: reply_def fstr_def bytes_repr_def repr_byte_def ascii_def)
  have sib: "snd (apply_net_state example_py ?out (PDict []) False True True True 60) =
      Inl (Nmstate (NmstatePermissionError (ascii ''denied'')))"
    using h1 h2
    by (simp add: snd_apply_net_state raise_map_error_def map_error_def decode_def
        utf8_decode_def reply_def ascii_def example_documents c_int_examples)
  show ?thesis
    using retrieve_failure_raises_generic [OF h1 h2, of False False False False] text_eq sib
    by simp
qed

section \<open>The log bridge\<close>

text \<open>
  C4, as the code has it. The log bridge completes without raising and hands nothing to
  \<^verbatim>\<open>logging\<close> for a missing payload, for a payload that is not valid UTF-8 and for a
  payload that is not valid JSON. For a payload that decodes to a list of mappings that
  each have the keys time, file, msg and level it completes and hands over one record per
  entry.
\<close>

theorem parse_log_completes:
  "parse_log P None = ([ParseLog None], Inr ())
   \<and> (utf8_decode b = None \<or> (\<exists>s. utf8_decode b = Some s \<and> json_loads P s = None) \<longrightarrow>
        parse_log P (Some b) = ([ParseLog (Some b)], Inr ()))
   \<and> (utf8_decode b = Some s \<and> json_loads P s = Some (PList es)
        \<and> list_all has_log_fields es \<longrightarrow>
        snd (parse_log P (Some b)) = Inr ()
        \<and> length (logged (fst (parse_log P (Some b)))) = length es)"
proof -
  have undecodable: "log_entries_of P b = PList []"
    if "utf8_decode b = None \<or> (\<exists>s. utf8_decode b = Some s \<and> json_loads P s = None)"
    using that by (auto simp: log_entries_of_def)
  have decoded: "log_entries_of P b = PList es"
    if "utf8_decode b = Some s" and "json_loads P s = Some (PList es)"
    using that by (simp add: log_entries_of_def)
  show ?thesis
    using undecodable decoded log_loop_fields [of es P]
    by (auto simp: parse_log_def after_def)
qed

theorem parse_log_completes_witness:
  "parse_log example_py (Some [CHR 0xFF]) = ([ParseLog (Some [CHR 0xFF])], Inr ())
   \<and> parse_log example_py (Some ''not json'') = ([ParseLog (Some ''not json'')], Inr ())
   \<and> snd (parse_log example_py (Some example_log_text)) = Inr ()
   \<and> length (logged (fst (parse_log example_py (Some example_log_text)))) = 1
   \<and> logged (fst (parse_log example_py (Some example_log_text))) =
       [(INFO, ascii ''t0:lib.rs: up'')]"
proof -
  have bad: "utf8_decode [CHR 0xFF] = None"
    by (simp add: utf8_decode_def)
  have nj: "utf8_decode ''not json'' = Some (ascii ''not json'')"
    by (simp add: utf8_decode_def ascii_def)
  have nj': "json_loads example_py (ascii ''not json'') = None"
    by (simp add: example_py_def example_loads_def ascii_eq_iff example_log_text_def)
  have lg: "utf8_decode example_log_text = Some (ascii example_log_text)"
    by (simp add: utf8_decode_def ascii_def example_log_text_def)
  have lg': "json_loads example_py (ascii example_log_text) =
      Some (PList [PDict [(ascii ''time'', PStr (ascii ''t0'')),
                          (ascii ''file'', PStr (ascii ''lib.rs'')),
                          (ascii ''msg'', PStr (ascii ''up'')),
                          (ascii ''level'', PStr (ascii ''INFO''))]])"
    by (simp add: example_py_def example_loads_def ascii_eq_iff example_log_text_def
        example_log_entries_def)
  have fields: "list_all has_log_fields
      [PDict [(ascii ''time'', PStr (ascii ''t0'')), (ascii ''file'', PStr (ascii ''lib.rs'')),
              (ascii ''msg'', PStr (ascii ''up'')), (ascii ''level'', PStr (ascii ''INFO''))]]"
    by (simp add: has_log_fields_def ascii_eq_iff)
  show ?thesis
    using parse_log_completes [of example_py "[CHR 0xFF]"]
      parse_log_completes [of example_py "''not json''"]
      parse_log_completes [of example_py example_log_text "ascii example_log_text"
        "[PDict [(ascii ''time'', PStr (ascii ''t0'')), (ascii ''file'', PStr (ascii ''lib.rs'')),
                 (ascii ''msg'', PStr (ascii ''up'')), (ascii ''level'', PStr (ascii ''INFO''))]]"]
      bad nj nj' lg lg' fields example_record
    by simp
qed

theorem parse_log_raises_counterexample:
  "snd (parse_log example_py (Some ''5'')) = Inl TypeError
   \<and> snd (parse_log example_py (Some ''[{}]'')) = Inl (KeyError (ascii ''time''))
   \<and> snd (retrieve_net_state_json example_py (reply 0 [(C_state, ''{}''), (C_log, ''5'')])
        False False False False) = Inl TypeError"
proof -
  have five: "log_entries_of example_py ''5'' = PInt 5"
    by (simp add: log_entries_of_def utf8_decode_def example_py_def example_loads_def
        ascii_def)
  have rec: "log_entries_of example_py ''[{}]'' = PList [PDict []]"
    by (simp add: log_entries_of_def utf8_decode_def example_py_def example_loads_def
        ascii_def)
  have a: "snd (parse_log example_py (Some ''5'')) = Inl TypeError"
    by (simp add: parse_log_def five after_def)
  have b: "snd (parse_log example_py (Some ''[{}]'')) = Inl (KeyError (ascii ''time''))"
    by (simp add: parse_log_def rec after_def log_one_def)
  have c: "snd (retrieve_net_state_json example_py (reply 0 [(C_state, ''{}''), (C_log, ''5'')])
        False False False False) = Inl TypeError"
    using a by (simp add: snd_retrieve_net_state_json reply_def)
  from a b c show ?thesis by blast
qed

section \<open>Apply and the checkpoint\<close>

text \<open>
  C1, as the code has it. Apply never returns a checkpoint handle, with commit=true or with
  commit=false: whenever it has entered the engine, the engine reports success and the log
  bridge completes, it returns \<^verbatim>\<open>None\<close>. The call hands the engine three output slots, for
  the log, the error kind and the error message, and none for a checkpoint. commit=false
  does no more than set the no-commit bit 1<<5 in the flag word: the run with commit=false
  has the effects of the run with commit=true, with that bit, clear there, set in the flag
  word, and it raises or returns the same.
\<close>

theorem apply_returns_no_handle:
  "\<not> returns_handle (snd (apply_net_state P out state kernel_only verify_change save_to_disk
        commit rollback_timeout))
   \<and> (invoked (fst (apply_net_state P out state kernel_only verify_change save_to_disk
          commit rollback_timeout))
        \<and> rc out = NMSTATE_PASS \<and> snd (parse_log P (buf out C_log)) = Inr () \<longrightarrow>
        snd (apply_net_state P out state kernel_only verify_change save_to_disk commit
          rollback_timeout) = Inr PNone)
   \<and> out_buffers (fst (apply_net_state P out state kernel_only verify_change save_to_disk
        commit rollback_timeout)) =
       (if invoked (fst (apply_net_state P out state kernel_only verify_change save_to_disk
          commit rollback_timeout))
        then [C_log, C_err_kind, C_err_msg] else [])
   \<and> fst (apply_net_state P out state kernel_only verify_change save_to_disk False
        rollback_timeout) =
       map (with_flags (push_bit 5 1))
         (fst (apply_net_state P out state kernel_only verify_change save_to_disk True
            rollback_timeout))
   \<and> snd (apply_net_state P out state kernel_only verify_change save_to_disk False
        rollback_timeout) =
       snd (apply_net_state P out state kernel_only verify_change save_to_disk True
        rollback_timeout)
   \<and> list_all (\<lambda>f. \<not> bit f 5)
        (flag_words (fst (apply_net_state P out state kernel_only verify_change save_to_disk
           True rollback_timeout)))"
proof -
  have a: "\<not> returns_handle (snd (apply_net_state P out state kernel_only verify_change
        save_to_disk commit rollback_timeout))"
    by (simp add: snd_apply_net_state returns_handle_def raise_map_error_def
        split: sum.splits)
  have b: "invoked (fst (apply_net_state P out state kernel_only verify_change save_to_disk
          commit rollback_timeout))
        \<and> rc out = NMSTATE_PASS \<and> snd (parse_log P (buf out C_log)) = Inr () \<longrightarrow>
        snd (apply_net_state P out state kernel_only verify_change save_to_disk commit
          rollback_timeout) = Inr PNone"
    by (auto simp: snd_apply_net_state invoked_apply_net_state split: sum.splits)
  have c: "out_buffers (fst (apply_net_state P out state kernel_only verify_change
        save_to_disk commit rollback_timeout)) =
       (if invoked (fst (apply_net_state P out state kernel_only verify_change save_to_disk
          commit rollback_timeout))
        then [C_log, C_err_kind, C_err_msg] else [])"
    by (simp add: apply_net_state_def trace_simps flag_defs c_int_def Let_def
        split: sum.splits)
  have d: "fst (apply_net_state P out state kernel_only verify_change save_to_disk False
        rollback_timeout) =
       map (with_flags (push_bit 5 1))
         (fst (apply_net_state P out state kernel_only verify_change save_to_disk True
            rollback_timeout))"
    by (simp add: apply_net_state_def fst_after with_flags_and_then flag_defs c_int_def
        Let_def split: sum.splits)
  have e: "snd (apply_net_state P out state kernel_only verify_change save_to_disk False
        rollback_timeout) =
       snd (apply_net_state P out state kernel_only verify_change save_to_disk True
        rollback_timeout)"
    by (simp add: snd_apply_net_state)
  have f: "list_all (\<lambda>f. \<not> bit f 5)
        (flag_words (fst (apply_net_state P out state kernel_only verify_change save_to_disk
           True rollback_timeout)))"
    by (simp add: apply_net_state_def trace_simps flag_defs c_int_def Let_def bit_simps
        split: sum.splits)
  from a b c d e f show ?thesis by blast
qed

theorem apply_returns_no_handle_witness:
  "snd (apply_net_state example_py (reply 0 []) (PDict []) False True True False 60)
     = Inr PNone
   \<and> snd (apply_net_state example_py (reply 0 []) (PDict []) False True True True 60)
     = Inr PNone
   \<and> fst (apply_net_state example_py (reply 0 []) (PDict []) False True True False 60) =
       [Invoke Nmstate_net_state_apply
          [AFlags 32, AText (Some ''{}''), AInt 60, ByRef C_log, ByRef C_err_kind,
           ByRef C_err_msg],
        ParseLog None, Free C_log, Free C_err_kind, Free C_err_msg]"
proof -
  have h: "invoked (fst (apply_net_state example_py (reply 0 []) (PDict []) False True True
      commit 60))"
    "rc (reply 0 []) = NMSTATE_PASS"
    "snd (parse_log example_py (buf (reply 0 []) C_log)) = Inr ()" for commit
    by (simp_all add: invoked_apply_net_state example_documents c_int_examples reply_simps
        NMSTATE_PASS_def parse_log_None)
  have t: "fst (apply_net_state example_py (reply 0 []) (PDict []) False True True True 60) =
       [Invoke Nmstate_net_state_apply
          [AFlags 0, AText (Some ''{}''), AInt 60, ByRef C_log, ByRef C_err_kind,
           ByRef C_err_msg],
        ParseLog None, Free C_log, Free C_err_kind, Free C_err_msg]"
    by (simp add: apply_net_state_def example_documents c_int_def flag_defs Let_def
        reply_simps parse_log_None and_then_def after_def)
  show ?thesis
    using apply_returns_no_handle [where P = example_py and out = "reply 0 []"
        and state = "PDict []" and kernel_only = False and verify_change = True
        and save_to_disk = True and commit = False and rollback_timeout = 60]
      apply_returns_no_handle [where P = example_py and out = "reply 0 []"
        and state = "PDict []" and kernel_only = False and verify_change = True
        and save_to_disk = True and commit = True and rollback_timeout = 60] h t
    by simp
qed

theorem apply_uncommitted_counterexample:
  "rc (reply 0 []) = NMSTATE_PASS
   \<and> snd (apply_net_state example_py (reply 0 []) (PDict []) False True True False 60)
       = Inr PNone
   \<and> \<not> returns_handle
        (snd (apply_net_state example_py (reply 0 []) (PDict []) False True True False 60))"
  by (simp add: snd_apply_net_state reply_simps NMSTATE_PASS_def parse_log_None
      returns_handle_def example_documents c_int_examples)

section \<open>Status code and outcome\<close>

text \<open>
  C8, as the code has it. For every operation a nonzero status code makes the call raise.
  With status code zero a call that entered the engine raises nothing and returns its
  payload provided the log bridge, where the operation enters it, completes and, where the
  payload is a result buffer, that buffer is present and valid UTF-8: apply, commit and
  rollback return \<^verbatim>\<open>None\<close>; retrieval and policy evaluation return the decoded
  \<^verbatim>\<open>c_state\<close>, config generation the decoded \<^verbatim>\<open>c_configs\<close>, diff the decoded
  \<^verbatim>\<open>c_diff_state\<close> and the serializer the decoded \<^verbatim>\<open>c_formated_state\<close>.
\<close>

theorem status_code_and_outcome:
  "(rc out \<noteq> NMSTATE_PASS \<longrightarrow> isl (snd (run P out c)))
   \<and> (rc out = NMSTATE_PASS \<and> snd (parse_log P (buf out C_log)) = Inr () \<longrightarrow>
        (invoked (fst (apply_net_state P out state kernel_only verify_change save_to_disk
             commit rollback_timeout)) \<longrightarrow>
           snd (apply_net_state P out state kernel_only verify_change save_to_disk commit
             rollback_timeout) = Inr PNone)
        \<and> snd (commit_checkpoint P out checkpoint) = Inr PNone
        \<and> snd (rollback_checkpoint P out checkpoint) = Inr PNone
        \<and> (decode (buf out C_state) = Inr s \<longrightarrow>
             snd (retrieve_net_state_json P out kernel_only' include_status_data
               include_secrets running_config_only) = Inr (PStr s)
             \<and> (invoked (fst (net_state_from_policy P out policy cur_state)) \<longrightarrow>
                  snd (net_state_from_policy P out policy cur_state) = Inr (PStr s)))
        \<and> (decode (buf out C_configs) = Inr s' \<and> invoked (fst (gen_conf P out state)) \<longrightarrow>
             snd (gen_conf P out state) = Inr (PStr s')))
   \<and> (rc out = NMSTATE_PASS \<and> decode (buf out C_diff_state) = Inr d
        \<and> invoked (fst (gen_diff P out new_state old_state)) \<longrightarrow>
        snd (gen_diff P out new_state old_state) = Inr (PStr d))
   \<and> (rc out = NMSTATE_PASS \<and> decode (buf out C_formated_state) = Inr t
        \<and> invoked (fst (net_state_serialize P out state use_yaml)) \<longrightarrow>
        snd (net_state_serialize P out state use_yaml) = Inr (PStr t))"
proof -
  have failing: "rc out \<noteq> NMSTATE_PASS \<longrightarrow> isl (snd (run P out c))"
    by (cases c) (simp_all add: snd_ops isl_raise_map_error split: sum.splits)
  have logged_ops: "rc out = NMSTATE_PASS \<and> snd (parse_log P (buf out C_log)) = Inr () \<longrightarrow>
        (invoked (fst (apply_net_state P out state kernel_only verify_change save_to_disk
             commit rollback_timeout)) \<longrightarrow>
           snd (apply_net_state P out state kernel_only verify_change save_to_disk commit
             rollback_timeout) = Inr PNone)
        \<and> snd (commit_checkpoint P out checkpoint) = Inr PNone
        \<and> snd (rollback_checkpoint P out checkpoint) = Inr PNone
        \<and> (decode (buf out C_state) = Inr s \<longrightarrow>
             snd (retrieve_net_state_json P out kernel_only' include_status_data
               include_secrets running_config_only) = Inr (PStr s)
             \<and> (invoked (fst (net_state_from_policy P out policy cur_state)) \<longrightarrow>
                  snd (net_state_from_policy P out policy cur_state) = Inr (PStr s)))
        \<and> (decode (buf out C_configs) = Inr s' \<and> invoked (fst (gen_conf P out state)) \<longrightarrow>
             snd (gen_conf P out state) = Inr (PStr s'))"
    by (auto simp: snd_ops invoked_ops split: sum.splits)
  have diff: "rc out = NMSTATE_PASS \<and> decode (buf out C_diff_state) = Inr d
        \<and> invoked (fst (gen_diff P out new_state old_state)) \<longrightarrow>
        snd (gen_diff P out new_state old_state) = Inr (PStr d)"
    by (auto simp: snd_gen_diff invoked_gen_diff split: sum.splits)
  have ser: "rc out = NMSTATE_PASS \<and> decode (buf out C_formated_state) = Inr t
        \<and> invoked (fst (net_state_serialize P out state use_yaml)) \<longrightarrow>
        snd (net_state_serialize P out state use_yaml) = Inr (PStr t)"
    by (auto simp: snd_net_state_serialize invoked_net_state_serialize
        split: sum.splits if_splits)
  from failing logged_ops diff ser show ?thesis by blast
qed

theorem status_code_and_outcome_witness:
  "isl (snd (run example_py (reply 1 [(C_err_kind, ''Bug''), (C_err_msg, ''boom'')])
           (GenDiff (PDict []) (PDict []))))
   \<and> snd (retrieve_net_state_json example_py (reply 0 [(C_state, ''{}'')])
        False False False False) = Inr (PStr (ascii ''{}''))
   \<and> snd (commit_checkpoint example_py (reply 0 [(C_state, ''{}'')]) None) = Inr PNone
   \<and> snd (apply_net_state example_py (reply 0 [(C_state, ''{}'')]) (PDict []) False True
        True True 60) = Inr PNone
   \<and> snd (gen_conf example_py (reply 0 [(C_configs, ''{}'')]) (PDict []))
       = Inr (PStr (ascii ''{}''))
   \<and> snd (gen_diff example_py (reply 0 [(C_diff_state, ''{}'')]) (PDict []) (PDict []))
       = Inr (PStr (ascii ''{}''))
   \<and> snd (net_state_serialize example_py (reply 0 [(C_formated_state, ''{}'')]) (PDict [])
        True) = Inr (PStr (ascii ''{}''))"
proof -
  have d: "decode (Some ''{}'') = Inr (ascii ''{}'')"
    by (simp add: decode_def utf8_decode_def ascii_def)
  have r: "(1::int) \<noteq> NMSTATE_PASS" "(0::int) = NMSTATE_PASS"
    by (simp_all add: NMSTATE_PASS_def)
  have i: "invoked (fst (apply_net_state example_py out (PDict []) False True True True 60))"
    "invoked (fst (gen_conf example_py out (PDict [])))"
    "invoked (fst (gen_diff example_py out (PDict []) (PDict [])))"
    "invoked (fst (net_state_serialize example_py out (PDict []) True))" for out
    by (simp_all add: invoked_ops example_documents c_int_examples)
  show ?thesis
    using status_code_and_outcome [where out = "reply 1 [(C_err_kind, ''Bug''),
          (C_err_msg, ''boom'')]" and P = example_py and c = "GenDiff (PDict []) (PDict [])"]
      status_code_and_outcome [where out = "reply 0 [(C_state, ''{}'')]" and P = example_py
        and checkpoint = None and s = "ascii ''{}''" and kernel_only' = False
        and include_status_data = False and include_secrets = False
        and running_config_only = False and state = "PDict []" and kernel_only = False
        and verify_change = True and save_to_disk = True and commit = True
        and rollback_timeout = 60]
      status_code_and_outcome [where out = "reply 0 [(C_configs, ''{}'')]"
        and P = example_py and state = "PDict []" and s' = "ascii ''{}''"]
      status_code_and_outcome [where out = "reply 0 [(C_diff_state, ''{}'')]"
        and P = example_py and d = "ascii ''{}''" and new_state = "PDict []"
        and old_state = "PDict []"]
      status_code_and_outcome [where out = "reply 0 [(C_formated_state, ''{}'')]"
        and P = example_py and state = "PDict []" and t = "ascii ''{}''"
        and use_yaml = True]
    by (simp add: d r i reply_simps parse_log_None)
qed

theorem status_zero_raises_counterexample:
  "rc (reply 0 []) = NMSTATE_PASS
   \<and> snd (retrieve_net_state_json example_py (reply 0 []) False False False False)
       = Inl AttributeError
   \<and> rc (reply 0 [(C_diff_state, [CHR 0xFF])]) = NMSTATE_PASS
   \<and> snd (gen_diff example_py (reply 0 [(C_diff_state, [CHR 0xFF])]) (PDict []) (PDict []))
       = Inl UnicodeDecodeError"
  by (simp add: snd_retrieve_net_state_json snd_gen_diff reply_simps NMSTATE_PASS_def
      parse_log_None decode_def utf8_decode_def example_documents)

end
